theory Spec2Isabelle
  imports Main "HOL-Library.Char_ord" "HOL-Library.List_Lexorder"
begin

section \<open>JavaScript strings\<close>

text \<open>
  Strings are lists of \<^typ>\<open>char\<close>, read as code units in the Latin-1 range
  (U+0000 to U+00FF). Text outside that range is not covered by the model.
\<close>

text \<open>The characters matched by \<^verbatim>\<open>\s\<close> and removed by \<^verbatim>\<open>trim()\<close>, below U+0100.\<close>

definition isSpace :: "char \<Rightarrow> bool" where
  "isSpace c = (c \<in> set [CHR 0x09, CHR 0x0A, CHR 0x0B, CHR 0x0C, CHR 0x0D, CHR 0x20, CHR 0xA0])"

text \<open>
  The characters that \<^verbatim>\<open>.\<close> does not match in a regular expression without the
  \<^verbatim>\<open>s\<close> flag, below U+0100.
\<close>

definition isLineTerminator :: "char \<Rightarrow> bool" where
  "isLineTerminator c = (c = CHR 0x0A \<or> c = CHR 0x0D)"

text \<open>\<^verbatim>\<open>[a-z0-9]\<close> under the \<^verbatim>\<open>i\<close> flag.\<close>

definition isAlnum :: "char \<Rightarrow> bool" where
  "isAlnum c =
     (let n = (of_char c :: nat)
      in (48 \<le> n \<and> n \<le> 57) \<or> (65 \<le> n \<and> n \<le> 90) \<or> (97 \<le> n \<and> n \<le> 122))"

definition isDigit :: "char \<Rightarrow> bool" where
  "isDigit c = (let n = (of_char c :: nat) in 48 \<le> n \<and> n \<le> 57)"

text \<open>
  \<^verbatim>\<open>toLowerCase\<close>: the upper-case letters below U+0100 are A to Z and U+00C0 to U+00DE
  without U+00D7; each maps to the code unit 32 above it, which differs in bit 5 only.
\<close>

fun setBit5 :: "char \<Rightarrow> char" where
  "setBit5 (Char b0 b1 b2 b3 b4 b5 b6 b7) = Char b0 b1 b2 b3 b4 True b6 b7"

definition isUpper :: "char \<Rightarrow> bool" where
  "isUpper c =
     (let n = (of_char c :: nat)
      in (65 \<le> n \<and> n \<le> 90) \<or> (192 \<le> n \<and> n \<le> 222 \<and> n \<noteq> 215))"

definition toLowerChar :: "char \<Rightarrow> char" where
  "toLowerChar c = (if isUpper c then setBit5 c else c)"

definition toLowerCase :: "string \<Rightarrow> string" where
  "toLowerCase s = map toLowerChar s"

text \<open>\<^verbatim>\<open>s.trim()\<close>\<close>

definition trim :: "string \<Rightarrow> string" where
  "trim s = rev (dropWhile isSpace (rev (dropWhile isSpace s)))"

text \<open>\<^verbatim>\<open>h.startsWith(t)\<close> and \<^verbatim>\<open>h.includes(t)\<close>\<close>

fun startsWith :: "string \<Rightarrow> string \<Rightarrow> bool" where
  "startsWith h [] = True"
| "startsWith [] (t # ts) = False"
| "startsWith (c # cs) (t # ts) = (c = t \<and> startsWith cs ts)"

fun includesStr :: "string \<Rightarrow> string \<Rightarrow> bool" where
  "includesStr [] t = (t = [])"
| "includesStr (c # cs) t = (startsWith (c # cs) t \<or> includesStr cs t)"

text \<open>
  \<^verbatim>\<open>s.split(sep)\<close> for a separator that matches exactly one character of a class:
  \<^verbatim>\<open>split('/')\<close>, \<^verbatim>\<open>split('_')\<close>, \<^verbatim>\<open>split(',')\<close>, \<^verbatim>\<open>split(/[;,]/)\<close>.
  The empty string gives one empty piece.
\<close>

fun split_on :: "(char \<Rightarrow> bool) \<Rightarrow> string \<Rightarrow> string list" where
  "split_on P [] = [[]]"
| "split_on P (c # cs) =
     (if P c then [] # split_on P cs
      else (case split_on P cs of [] \<Rightarrow> [[c]] | w # ws \<Rightarrow> (c # w) # ws))"

text \<open>
  \<^verbatim>\<open>s.split(/\s+/)\<close>: the separator is a maximal run of characters of a class
  (the match is greedy).
\<close>

function split_runs :: "(char \<Rightarrow> bool) \<Rightarrow> string \<Rightarrow> string list" where
  "split_runs P [] = [[]]"
| "split_runs P (c # cs) =
     (if P c then [] # split_runs P (dropWhile P cs)
      else (case split_runs P cs of [] \<Rightarrow> [[c]] | w # ws \<Rightarrow> (c # w) # ws))"
  by pat_completeness auto
termination
  by (relation "measure (\<lambda>(P, s). length s)") (auto simp: length_dropWhile_le less_Suc_eq_le)

text \<open>\<^verbatim>\<open>s.replace(/[-]+/g, r)\<close> and \<^verbatim>\<open>s.replace(/\s+/g, r)\<close>: every maximal run becomes \<open>r\<close>.\<close>

function replace_runs :: "(char \<Rightarrow> bool) \<Rightarrow> string \<Rightarrow> string \<Rightarrow> string" where
  "replace_runs P r [] = []"
| "replace_runs P r (c # cs) =
     (if P c then r @ replace_runs P r (dropWhile P cs) else c # replace_runs P r cs)"
  by pat_completeness auto
termination
  by (relation "measure (\<lambda>(P, r, s). length s)") (auto simp: length_dropWhile_le less_Suc_eq_le)

text \<open>\<^verbatim>\<open>parts.join(sep)\<close>\<close>

fun join :: "string \<Rightarrow> string list \<Rightarrow> string" where
  "join sep [] = []"
| "join sep [x] = x"
| "join sep (x # y # ys) = x @ sep @ join sep (y # ys)"

text \<open>\<^verbatim>\<open>xs.pop()\<close> read as a value: the last element, \<open>None\<close> for the empty array.\<close>

definition pop :: "'a list \<Rightarrow> 'a option" where
  "pop xs = (case rev xs of [] \<Rightarrow> None | x # _ \<Rightarrow> Some x)"

text \<open>
  \<^verbatim>\<open>a || b\<close> on strings: the empty string and undefined are falsy.
\<close>

definition truthyStr :: "string option \<Rightarrow> bool" where
  "truthyStr v = (case v of None \<Rightarrow> False | Some s \<Rightarrow> s \<noteq> [])"

definition orStr :: "string option \<Rightarrow> string \<Rightarrow> string" where
  "orStr a b = (case a of None \<Rightarrow> b | Some s \<Rightarrow> if s = [] then b else s)"

text \<open>\<^verbatim>\<open>a ?? b\<close>: only null and undefined are replaced.\<close>

definition nullish :: "'a option \<Rightarrow> 'a option \<Rightarrow> 'a option" where
  "nullish a b = (case a of None \<Rightarrow> b | Some x \<Rightarrow> Some x)"

text \<open>Decimal digits, and \<^verbatim>\<open>String(n)\<close> for an integer.\<close>

definition digitChar :: "nat \<Rightarrow> char" where
  "digitChar d = ''0123456789ABCDEF'' ! d"

fun showNat :: "nat \<Rightarrow> string" where
  "showNat n = (if n < 10 then [digitChar n] else showNat (n div 10) @ [digitChar (n mod 10)])"

declare showNat.simps [simp del]

definition showInt :: "int \<Rightarrow> string" where
  "showInt i = (if i < 0 then CHR ''-'' # showNat (nat (- i)) else showNat (nat i))"

section \<open>Field normalizers\<close>

subsection \<open>cleanFileDisplay\<close>

text \<open>
  \<^verbatim>\<open>base.replace(/\.[a-z0-9]+$/i, '')\<close>: the leftmost dot that is followed, up to the
  end of the string, by one or more letters or digits is removed together with them.
\<close>

fun stripExt :: "string \<Rightarrow> string" where
  "stripExt [] = []"
| "stripExt (c # cs) =
     (if c = CHR ''.'' \<and> cs \<noteq> [] \<and> list_all isAlnum cs then [] else c # stripExt cs)"

text \<open>
  The function is the same, character for character, on the search page and on the
  cloud page.
\<close>

definition cleanFileDisplay :: "string \<Rightarrow> string" where
  "cleanFileDisplay name =
     (let base = orStr (pop (split_on (\<lambda>c. c = CHR ''/'') name)) name;
          noExt = stripExt base;
          parts = split_on (\<lambda>c. c = CHR ''_'') noExt;
          kept = replace_runs (\<lambda>c. c = CHR ''-'') '' '' (join '' '' (drop 3 parts))
      in trim (replace_runs isSpace '' '' kept))"

text \<open>\<^verbatim>\<open>/_/.test(s)\<close>\<close>

definition hasUnderscore :: "string \<Rightarrow> bool" where
  "hasUnderscore s = (CHR ''_'' \<in> set s)"

subsection \<open>Loosely typed JSON values\<close>

text \<open>
  The two data files are parsed JSON. Fields that the code inspects at run time
  (\<^verbatim>\<open>typeof\<close>, \<^verbatim>\<open>Array.isArray\<close>, truthiness) are modelled as JSON values; numbers
  are integers, taken exactly. The numbers of the code are doubles, which agree with
  the exact integers up to a magnitude of \<open>2 ^ 53\<close>; larger values are outside the model.
\<close>

datatype jsval =
    JUndefined
  | JNull
  | JBool bool
  | JNum int
  | JStr string
  | JArr "jsval list"
  | JObj "(string \<times> jsval) list"

fun truthy :: "jsval \<Rightarrow> bool" where
  "truthy JUndefined = False"
| "truthy JNull = False"
| "truthy (JBool b) = b"
| "truthy (JNum n) = (n \<noteq> 0)"
| "truthy (JStr s) = (s \<noteq> [])"
| "truthy (JArr vs) = True"
| "truthy (JObj kvs) = True"

subsection \<open>numericYear\<close>

definition digitVal :: "char \<Rightarrow> int" where
  "digitVal c = int (of_char c) - 48"

text \<open>
  \<^verbatim>\<open>parseInt(y, 10)\<close>: leading white space is skipped, one sign is read, then the longest
  run of decimal digits; no digit gives NaN, which \<^verbatim>\<open>Number.isFinite\<close> rejects. The
  value is exact here; the code rounds a value beyond \<open>2 ^ 53\<close> to a double and turns a
  digit string beyond the range of doubles into Infinity, which it rejects as well.
\<close>

definition parseInt10 :: "string \<Rightarrow> int option" where
  "parseInt10 s =
     (let t = dropWhile isSpace s;
          neg = (case t of [] \<Rightarrow> False | c # r \<Rightarrow> c = CHR ''-'');
          u = (case t of [] \<Rightarrow> [] | c # r \<Rightarrow> if c = CHR ''+'' \<or> c = CHR ''-'' then r else t);
          ds = takeWhile isDigit u
      in if ds = [] then None
         else Some ((if neg then - 1 else 1) * foldl (\<lambda>a c. 10 * a + digitVal c) 0 ds))"

fun numericYear :: "jsval \<Rightarrow> int option" where
  "numericYear (JNum n) = Some n"
| "numericYear (JStr s) = parseInt10 s"
| "numericYear v = None"

subsection \<open>coerceTags\<close>

fun stringsOf :: "jsval list \<Rightarrow> string list" where
  "stringsOf [] = []"
| "stringsOf (JStr s # vs) = s # stringsOf vs"
| "stringsOf (v # vs) = stringsOf vs"

text \<open>The inner \<^verbatim>\<open>pushAny\<close>, with the array \<^verbatim>\<open>out\<close> passed in and returned.\<close>

definition pushAny :: "string list \<Rightarrow> jsval \<Rightarrow> string list" where
  "pushAny out val =
     (if \<not> truthy val then out
      else case val of
             JArr vs \<Rightarrow> out @ stringsOf vs
           | JStr s \<Rightarrow> out @ split_on (\<lambda>c. c = CHR '';'' \<or> c = CHR '','') s
           | _ \<Rightarrow> out)"

text \<open>The reducer: \<^verbatim>\<open>cur\<close> is kept unless an entry with the same lower-case form is there.\<close>

definition dedupStep :: "string list \<Rightarrow> string \<Rightarrow> string list" where
  "dedupStep acc cur =
     (let key = toLowerCase cur
      in if \<not> list_ex (\<lambda>x. toLowerCase x = key) acc then acc @ [cur] else acc)"

definition cleanTags :: "string list \<Rightarrow> string list" where
  "cleanTags out =
     foldl dedupStep []
       (filter (\<lambda>t. length t \<le> 40 \<and> length (split_runs isSpace t) \<le> 5)
         (filter (\<lambda>t. length t > 0) (map trim out)))"

definition coerceTags :: "jsval \<Rightarrow> jsval \<Rightarrow> jsval \<Rightarrow> string list" where
  "coerceTags recTags itemTags topics =
     (let out = pushAny (pushAny [] recTags) itemTags;
          out = (if length out = 0 then pushAny out topics else out)
      in cleanTags out)"

section \<open>Search page\<close>

subsection \<open>Types\<close>

datatype ident = IdNum int | IdStr string

text \<open>
  \<^verbatim>\<open>String(it.id)\<close>. A numeric identity is printed in full; the code switches to
  exponent notation from \<open>10 ^ 21\<close>, beyond the range of the model's numbers.
\<close>

fun String_id :: "ident \<Rightarrow> string" where
  "String_id (IdNum n) = showInt n"
| "String_id (IdStr s) = s"

text \<open>
  The fields that the search page reads. An absent, undefined or null string field is
  \<open>None\<close>; \<^verbatim>\<open>year\<close>, \<^verbatim>\<open>tags\<close> and \<^verbatim>\<open>topics\<close> are inspected at run time and stay JSON
  values.
\<close>

record FullRecord =
  rec_title :: "string option"
  rec_year :: jsval
  rec_description :: "string option"
  rec_repository :: "string option"
  rec_tags :: jsval
  rec_url :: "string option"
  rec_topics :: jsval

record CloudItem =
  it_id :: ident
  it_title :: string
  it_year :: jsval
  it_repository :: "string option"
  it_description :: "string option"
  it_tags :: jsval
  it_link :: "string option"
  it_previewLocal :: string
  it_documentDirect :: "string option"

record Doc =
  doc_id :: ident
  title :: string
  rawTitle :: string
  year :: "int option"
  url :: "string option"
  tags :: "string list"
  repo :: "string option"
  iconURL :: string
  description :: "string option"

text \<open>
  \<^verbatim>\<open>BY_ID\<close> is an object used as a dictionary from stringified identity to record. A key
  that is only inherited from \<^verbatim>\<open>Object.prototype\<close> yields an object with none of the
  fields read here, which behaves like a missing record in every expression below.
\<close>

type_synonym byId = "string \<Rightarrow> FullRecord option"

text \<open>\<^verbatim>\<open>rec?.field\<close> for a string field and for a JSON field.\<close>

definition optField :: "'r option \<Rightarrow> ('r \<Rightarrow> string option) \<Rightarrow> string option" where
  "optField r f = (case r of None \<Rightarrow> None | Some x \<Rightarrow> f x)"

definition optJson :: "'r option \<Rightarrow> ('r \<Rightarrow> jsval) \<Rightarrow> jsval" where
  "optJson r f = (case r of None \<Rightarrow> JUndefined | Some x \<Rightarrow> f x)"

text \<open>\<^verbatim>\<open>a || b || c || null\<close>\<close>

definition firstTruthy :: "string option list \<Rightarrow> string option" where
  "firstTruthy vs = (case filter truthyStr vs of [] \<Rightarrow> None | v # _ \<Rightarrow> v)"

subsection \<open>buildDocs\<close>

text \<open>The body of the \<^verbatim>\<open>cloud.map\<close> callback.\<close>

definition buildDoc :: "byId \<Rightarrow> CloudItem \<Rightarrow> Doc" where
  "buildDoc byId it =
     (let rec = byId (String_id (it_id it));
          url = firstTruthy [it_documentDirect it, optField rec rec_url, it_link it];
          rawTitle = orStr (optField rec rec_title) (orStr (Some (it_title it)) ''Untitled'');
          display = (if hasUnderscore rawTitle then cleanFileDisplay rawTitle else rawTitle);
          tags = coerceTags (optJson rec rec_tags) (it_tags it) (optJson rec rec_topics)
      in \<lparr> doc_id = it_id it,
           title = display,
           rawTitle = rawTitle,
           year = nullish (numericYear (it_year it)) (numericYear (optJson rec rec_year)),
           url = url,
           tags = tags,
           repo = nullish (optField rec rec_repository) (it_repository it),
           iconURL = it_previewLocal it,
           description = nullish (optField rec rec_description) (it_description it) \<rparr>)"

definition buildDocs :: "CloudItem list \<Rightarrow> byId \<Rightarrow> Doc list" where
  "buildDocs cloud byId = map (buildDoc byId) cloud"

subsection \<open>Sorting with a comparator\<close>

text \<open>
  \<^verbatim>\<open>Array.prototype.sort(cmp)\<close> is stable; for a consistent comparator its result is the
  stable ordering computed here by insertion. \<^verbatim>\<open>localeCompare\<close> belongs to the
  platform and is a parameter of the functions that use it.
\<close>

fun insertBy :: "('a \<Rightarrow> 'a \<Rightarrow> int) \<Rightarrow> 'a \<Rightarrow> 'a list \<Rightarrow> 'a list" where
  "insertBy cmp x [] = [x]"
| "insertBy cmp x (y # ys) = (if cmp x y \<le> 0 then x # y # ys else y # insertBy cmp x ys)"

definition sortBy :: "('a \<Rightarrow> 'a \<Rightarrow> int) \<Rightarrow> 'a list \<Rightarrow> 'a list" where
  "sortBy cmp xs = foldr (insertBy cmp) xs []"

subsection \<open>buildTagSet\<close>

text \<open>\<^verbatim>\<open>s.add(x)\<close> on a \<^verbatim>\<open>Set\<close>, kept as the list of its elements in insertion order.\<close>

definition setAdd :: "'a list \<Rightarrow> 'a \<Rightarrow> 'a list" where
  "setAdd s x = (if x \<in> set s then s else s @ [x])"

definition buildTagSet :: "(string \<Rightarrow> string \<Rightarrow> int) \<Rightarrow> Doc list \<Rightarrow> string list" where
  "buildTagSet localeCompare docs =
     sortBy localeCompare (foldl (\<lambda>s d. foldl setAdd s (tags d)) [] docs)"

subsection \<open>Filter state\<close>

text \<open>
  The module variables \<^verbatim>\<open>q\<close>, \<^verbatim>\<open>activeTags\<close> (a \<^verbatim>\<open>Set\<close>, in insertion order),
  \<^verbatim>\<open>activeEra\<close> and the value of the sort selector \<^verbatim>\<open>els.sort.value\<close>.
\<close>

record FilterState =
  st_q :: string
  st_activeTags :: "string list"
  st_activeEra :: "string option"
  st_sort :: string

definition initState :: FilterState where
  "initState = \<lparr> st_q = [], st_activeTags = [], st_activeEra = None, st_sort = ''relevance'' \<rparr>"

subsection \<open>Era ranges\<close>

text \<open>The own properties of the \<^verbatim>\<open>PERIODS\<close> object.\<close>

definition PERIODS :: "string \<Rightarrow> (int \<times> int) option" where
  "PERIODS key =
     (if key = ''precursors'' then Some (1940, 1959)
      else if key = ''thick'' then Some (1960, 1989)
      else if key = ''today'' then Some (1990, 2100)
      else None)"

text \<open>
  \<^verbatim>\<open>PERIODS[key]\<close> is also truthy for the property names that every object inherits
  from \<^verbatim>\<open>Object.prototype\<close>; their values are not arrays.
\<close>

definition inheritedKeys :: "string list" where
  "inheritedKeys =
     [''constructor'', ''hasOwnProperty'', ''isPrototypeOf'', ''propertyIsEnumerable'',
      ''toLocaleString'', ''toString'', ''valueOf'', ''__proto__'', ''__defineGetter__'',
      ''__defineSetter__'', ''__lookupGetter__'', ''__lookupSetter__'']"

definition PERIODS_truthy :: "string \<Rightarrow> bool" where
  "PERIODS_truthy key = (PERIODS key \<noteq> None \<or> key \<in> set inheritedKeys)"

subsection \<open>Filtering\<close>

text \<open>\<^verbatim>\<open>s.split(/\s+/).filter(Boolean)\<close>\<close>

definition tokens :: "string \<Rightarrow> string list" where
  "tokens s = filter (\<lambda>t. t \<noteq> []) (split_runs isSpace s)"

definition matchesText :: "Doc \<Rightarrow> string \<Rightarrow> bool" where
  "matchesText d query =
     (if trim query = [] then True
      else let hay = [toLowerCase (title d), toLowerCase (orStr (description d) [])]
                       @ map toLowerCase (tags d);
               toks = tokens (toLowerCase query)
           in list_all (\<lambda>t. list_ex (\<lambda>h. includesStr h t) hay) toks)"

definition matchesTags :: "string list \<Rightarrow> Doc \<Rightarrow> bool" where
  "matchesTags activeTags d =
     (if length activeTags = 0 then True
      else let lowered = map toLowerCase (tags d)
           in list_all (\<lambda>t. toLowerCase t \<in> set lowered) activeTags)"

text \<open>The year of a built document is a number or null.\<close>

definition jsYear :: "int option \<Rightarrow> jsval" where
  "jsYear y = (case y of None \<Rightarrow> JNull | Some n \<Rightarrow> JNum n)"

datatype error = TypeError

text \<open>
  Destructuring \<^verbatim>\<open>PERIODS[activeEra]\<close> throws a \<^verbatim>\<open>TypeError\<close> when the key has no range.
\<close>

definition matchesEra :: "string option \<Rightarrow> Doc \<Rightarrow> error + bool" where
  "matchesEra activeEra d =
     (if \<not> truthyStr activeEra then Inr True
      else case PERIODS (orStr activeEra []) of
             None \<Rightarrow> Inl TypeError
           | Some (minY, maxY) \<Rightarrow>
               (case numericYear (jsYear (year d)) of
                  None \<Rightarrow> Inr False
                | Some y \<Rightarrow> Inr (y \<ge> minY \<and> y \<le> maxY)))"

subsection \<open>Sorting\<close>

definition scoreRelevance :: "Doc \<Rightarrow> string \<Rightarrow> int" where
  "scoreRelevance d query =
     (if trim query = [] then 0
      else let ql = toLowerCase query;
               score = 0;
               title = toLowerCase (title d);
               desc = toLowerCase (orStr (description d) []);
               score = (if includesStr title ql then score + 5 else score);
               score = (if includesStr desc ql then score + 2 else score)
           in foldl (\<lambda>score t. if includesStr (toLowerCase t) ql then score + 1 else score)
                score (tags d))"

text \<open>\<^verbatim>\<open>numericYear(d.year) ?? k\<close>\<close>

definition yearOr :: "Doc \<Rightarrow> int \<Rightarrow> int" where
  "yearOr d k = (case numericYear (jsYear (year d)) of None \<Rightarrow> k | Some y \<Rightarrow> y)"

text \<open>The comparator passed to \<^verbatim>\<open>filtered.sort\<close> in \<^verbatim>\<open>applyFilters\<close>.\<close>

definition compareDocs ::
  "(string \<Rightarrow> string \<Rightarrow> int) \<Rightarrow> string \<Rightarrow> string \<Rightarrow> Doc \<Rightarrow> Doc \<Rightarrow> int" where
  "compareDocs localeCompare sortMode q a b =
     (if sortMode = ''year-desc'' then yearOr b (- 1) - yearOr a (- 1)
      else if sortMode = ''year-asc'' then yearOr a 1 - yearOr b 1
      else if sortMode = ''title-asc'' then localeCompare (title a) (title b)
      else scoreRelevance b q - scoreRelevance a q)"

text \<open>
  \<^verbatim>\<open>DOCS.filter(...)\<close>: the three predicates are joined by \<^verbatim>\<open>&&\<close>, so the era
  predicate runs only for documents that passed the first two.
\<close>

fun filterDocs :: "FilterState \<Rightarrow> Doc list \<Rightarrow> error + Doc list" where
  "filterDocs st [] = Inr []"
| "filterDocs st (d # ds) =
     (if matchesText d (st_q st) \<and> matchesTags (st_activeTags st) d
      then (case matchesEra (st_activeEra st) d of
              Inl e \<Rightarrow> Inl e
            | Inr b \<Rightarrow>
                (case filterDocs st ds of
                   Inl e \<Rightarrow> Inl e
                 | Inr r \<Rightarrow> Inr (if b then d # r else r)))
      else filterDocs st ds)"

subsection \<open>Query state codec\<close>

text \<open>
  \<^verbatim>\<open>URLSearchParams\<close>: an ordered list of name-value pairs, its serializer and its
  parser (the \<^verbatim>\<open>application/x-www-form-urlencoded\<close> format over UTF-8).
\<close>

type_synonym params = "(string \<times> string) list"

fun paramsSet :: "params \<Rightarrow> string \<Rightarrow> string \<Rightarrow> params" where
  "paramsSet [] k v = [(k, v)]"
| "paramsSet ((k', v') # p) k v =
     (if k' = k then (k, v) # filter (\<lambda>kv. fst kv \<noteq> k) p else (k', v') # paramsSet p k v)"

definition paramsGet :: "params \<Rightarrow> string \<Rightarrow> string option" where
  "paramsGet p k = map_of p k"

definition utf8Encode :: "string \<Rightarrow> nat list" where
  "utf8Encode s =
     concat (map (\<lambda>c. let n = (of_char c :: nat)
                      in if n < 128 then [n] else [192 + n div 64, 128 + n mod 64]) s)"

text \<open>
  Bytes that do not decode to a code point below U+0100 are outside the model; each is
  shown as a question mark.
\<close>

fun utf8Decode :: "nat list \<Rightarrow> string" where
  "utf8Decode [] = []"
| "utf8Decode [b] = (if b < 128 then [char_of b] else ''?'')"
| "utf8Decode (b # b2 # bs) =
     (if b < 128 then char_of b # utf8Decode (b2 # bs)
      else if (b = 194 \<or> b = 195) \<and> 128 \<le> b2 \<and> b2 < 192
           then char_of ((b - 192) * 64 + (b2 - 128)) # utf8Decode bs
      else CHR ''?'' # utf8Decode (b2 # bs))"

definition percentEncodeByte :: "nat \<Rightarrow> string" where
  "percentEncodeByte b = [CHR ''%'', digitChar (b div 16), digitChar (b mod 16)]"

definition urlencodeChar :: "char \<Rightarrow> string" where
  "urlencodeChar c =
     (if c = CHR '' '' then ''+''
      else if isAlnum c \<or> c \<in> set ''*-._'' then [c]
      else concat (map percentEncodeByte (utf8Encode [c])))"

definition urlencode :: "string \<Rightarrow> string" where
  "urlencode s = concat (map urlencodeChar s)"

text \<open>\<^verbatim>\<open>p.toString()\<close>\<close>

definition paramsToString :: "params \<Rightarrow> string" where
  "paramsToString p = join ''&'' (map (\<lambda>(k, v). urlencode k @ ''='' @ urlencode v) p)"

definition isHex :: "char \<Rightarrow> bool" where
  "isHex c =
     (let n = (of_char c :: nat)
      in (48 \<le> n \<and> n \<le> 57) \<or> (65 \<le> n \<and> n \<le> 70) \<or> (97 \<le> n \<and> n \<le> 102))"

definition hexVal :: "char \<Rightarrow> nat" where
  "hexVal c =
     (let n = (of_char c :: nat)
      in if n \<le> 57 then n - 48 else if n \<le> 70 then n - 55 else n - 87)"

fun percentDecode :: "string \<Rightarrow> nat list" where
  "percentDecode (c # h1 # h2 # cs) =
     (if c = CHR ''%'' \<and> isHex h1 \<and> isHex h2
      then (16 * hexVal h1 + hexVal h2) # percentDecode cs
      else utf8Encode [c] @ percentDecode (h1 # h2 # cs))"
| "percentDecode cs = utf8Encode cs"

definition urldecode :: "string \<Rightarrow> string" where
  "urldecode s = utf8Decode (percentDecode (map (\<lambda>c. if c = CHR ''+'' then CHR '' '' else c) s))"

definition parsePair :: "string \<Rightarrow> string \<times> string" where
  "parsePair s =
     (let name = takeWhile (\<lambda>c. c \<noteq> CHR ''='') s;
          rest = dropWhile (\<lambda>c. c \<noteq> CHR ''='') s
      in (urldecode name, urldecode (drop 1 rest)))"

text \<open>\<^verbatim>\<open>new URLSearchParams(search)\<close>: one leading question mark is dropped.\<close>

definition parseParams :: "string \<Rightarrow> params" where
  "parseParams search =
     (let s = (case search of [] \<Rightarrow> [] | c # cs \<Rightarrow> if c = CHR ''?'' then cs else search)
      in map parsePair (filter (\<lambda>x. x \<noteq> []) (split_on (\<lambda>c. c = CHR ''&'') s)))"

text \<open>
  \<^verbatim>\<open>syncParams\<close> writes the query part of the address with \<^verbatim>\<open>history.replaceState\<close> and
  the result count into the page. It returns both here; the query part is what
  \<^verbatim>\<open>location.search\<close> reads afterwards, since the serializer emits no character that
  the address parser changes.
\<close>

definition syncParams :: "FilterState \<Rightarrow> Doc list \<Rightarrow> string \<times> string" where
  "syncParams st list =
     (let p = [];
          p = (if st_q st \<noteq> [] then paramsSet p ''q'' (st_q st) else p);
          p = (if length (st_activeTags st) \<noteq> 0
               then paramsSet p ''tags'' (join '','' (st_activeTags st)) else p);
          p = (if truthyStr (st_activeEra st)
               then paramsSet p ''era'' (orStr (st_activeEra st) []) else p);
          p = paramsSet p ''sort'' (st_sort st)
      in (''?'' @ paramsToString p,
          showNat (length list) @ '' result'' @ (if length list = 1 then [] else ''s'')))"

definition sortModes :: "string list" where
  "sortModes = [''relevance'', ''year-desc'', ''year-asc'', ''title-asc'']"

text \<open>
  \<^verbatim>\<open>readParams\<close> updates the module state from \<^verbatim>\<open>location.search\<close>. The sort selector of
  the page offers the four sort modes, so assigning one of them to its value takes effect.
\<close>

definition readParams :: "FilterState \<Rightarrow> string \<Rightarrow> FilterState" where
  "readParams st search =
     (let p = parseParams search;
          pq = paramsGet p ''q'';
          st = (if truthyStr pq then st\<lparr>st_q := orStr pq []\<rparr> else st);
          ptags = filter (\<lambda>t. t \<noteq> [])
                    (split_on (\<lambda>c. c = CHR '','') (orStr (paramsGet p ''tags'') []));
          st = st\<lparr>st_activeTags := foldl setAdd (st_activeTags st) ptags\<rparr>;
          s = paramsGet p ''sort'';
          st = (if truthyStr s \<and> orStr s [] \<in> set sortModes
                then st\<lparr>st_sort := orStr s []\<rparr> else st);
          era = paramsGet p ''era''
      in if truthyStr era \<and> PERIODS_truthy (orStr era []) then st\<lparr>st_activeEra := era\<rparr>
         else st)"

subsection \<open>applyFilters\<close>

text \<open>
  The filtered and sorted list handed to \<^verbatim>\<open>renderResults\<close>, with what \<^verbatim>\<open>syncParams\<close>
  wrote.
\<close>

definition applyFilters ::
  "(string \<Rightarrow> string \<Rightarrow> int) \<Rightarrow> FilterState \<Rightarrow> Doc list \<Rightarrow> error + (Doc list \<times> string \<times> string)" where
  "applyFilters localeCompare st docs =
     (case filterDocs st docs of
        Inl e \<Rightarrow> Inl e
      | Inr filtered \<Rightarrow>
          (let sorted = sortBy (compareDocs localeCompare (st_sort st) (st_q st)) filtered
           in Inr (sorted, syncParams st sorted)))"

section \<open>Cloud page\<close>

subsection \<open>Types\<close>

text \<open>
  The cloud page declares its own \<^verbatim>\<open>CloudItem\<close>, \<^verbatim>\<open>FullRecord\<close> and \<^verbatim>\<open>Doc\<close>; their
  models carry the prefix \<open>M\<close>. Fields follow the declared types (tags are arrays of
  strings, years of the sources are numbers or null); an optional or nullable field is an
  option.
\<close>

record MFullRecord =
  mrec_title :: "string option"
  mrec_year :: "int option"
  mrec_repository :: "string option"
  mrec_mediaType :: "string option"
  mrec_description :: "string option"
  mrec_schoolPrimary :: "string option"
  mrec_tags :: "string list option"
  mrec_url :: "string option"
  mrec_hires :: "string list option"
  mrec_topics :: "string list option"

record MCloudItem =
  mit_id :: ident
  mit_title :: string
  mit_year :: "int option"
  mit_repository :: "string option"
  mit_mediaType :: "string option"
  mit_description :: "string option"
  mit_schoolPrimary :: "string option"
  mit_tags :: "string list option"
  mit_link :: "string option"
  mit_previewLocal :: string
  mit_documentDirect :: "string option"

datatype Topic = protest | flyer | surveillance | policy | media | other

record MDoc =
  m_id :: ident
  m_title :: string
  m_year :: jsval
  m_url :: "string option"
  m_topic :: Topic
  m_tags :: "string list option"
  m_repo :: "string option"
  m_iconURL :: string
  m_schoolPrimary :: "string option"
  m_description :: "string option"
  m_topicTitle :: "string option"

type_synonym mbyId = "string \<Rightarrow> MFullRecord option"

text \<open>\<^verbatim>\<open>xs || []\<close> for an optional array, and \<^verbatim>\<open>rec?.tags\<close>.\<close>

definition orEmpty :: "'a list option \<Rightarrow> 'a list" where
  "orEmpty xs = (case xs of None \<Rightarrow> [] | Some ys \<Rightarrow> ys)"

definition optList :: "'r option \<Rightarrow> ('r \<Rightarrow> 'a list option) \<Rightarrow> 'a list option" where
  "optList r f = (case r of None \<Rightarrow> None | Some x \<Rightarrow> f x)"

subsection \<open>displayTitleFor\<close>

text \<open>\<^verbatim>\<open>rec?.hires?.[0]\<close>\<close>

definition firstHires :: "MFullRecord option \<Rightarrow> string option" where
  "firstHires rec = (case optList rec mrec_hires of None \<Rightarrow> None | Some hs \<Rightarrow> (case hs of [] \<Rightarrow> None | h # _ \<Rightarrow> Some h))"

definition displayTitleFor :: "mbyId \<Rightarrow> MDoc \<Rightarrow> string" where
  "displayTitleFor BY_ID meta =
     (let rec = BY_ID (String_id (m_id meta));
          recTitle = optField rec mrec_title
      in if truthyStr recTitle \<and> hasUnderscore (orStr recTitle []) then cleanFileDisplay (orStr recTitle [])
         else if m_title meta \<noteq> [] \<and> hasUnderscore (m_title meta) then cleanFileDisplay (m_title meta)
         else let fromUrl = orStr (firstHires rec) (orStr (m_url meta) []);
                  base = orStr (pop (split_on (\<lambda>c. c = CHR ''/'') fromUrl)) []
              in if fromUrl \<noteq> [] \<and> hasUnderscore base then cleanFileDisplay base
                 else orStr (Some (m_title meta)) (orStr recTitle ''Untitled''))"

subsection \<open>matchesQuery\<close>

text \<open>
  \<^verbatim>\<open>t.match(/^tag:(.+)$/)\<close>: the captured group, when the token starts with \<^verbatim>\<open>tag:\<close>
  and goes on with at least one character, none of them a line terminator.
\<close>

definition tagMatch :: "string \<Rightarrow> string option" where
  "tagMatch t =
     (let rest = drop 4 t
      in if startsWith t ''tag:'' \<and> rest \<noteq> [] \<and> \<not> list_ex isLineTerminator rest
         then Some rest else None)"

text \<open>The \<^verbatim>\<open>for\<close> loop over the tokens; it leaves with \<^verbatim>\<open>ok = false\<close> at the first failing token.\<close>

fun matchTokens :: "string list \<Rightarrow> string list \<Rightarrow> string list \<Rightarrow> bool" where
  "matchTokens hay tagPool [] = True"
| "matchTokens hay tagPool (t # ts) =
     (case tagMatch t of
        Some want \<Rightarrow> if want \<notin> set tagPool then False else matchTokens hay tagPool ts
      | None \<Rightarrow> if \<not> list_ex (\<lambda>h. includesStr h t) hay then False else matchTokens hay tagPool ts)"

definition matchesQuery :: "mbyId \<Rightarrow> MDoc \<Rightarrow> string \<Rightarrow> bool" where
  "matchesQuery BY_ID meta q =
     (if trim q = [] then True
      else let rec = BY_ID (String_id (m_id meta));
               hay = [toLowerCase (displayTitleFor BY_ID meta),
                      toLowerCase (orStr (m_description meta) [])]
                     @ map toLowerCase (orEmpty (m_tags meta))
                     @ map toLowerCase (orEmpty (optList rec mrec_tags));
               toks = tokens (toLowerCase q);
               tagPool = map toLowerCase (orEmpty (m_tags meta) @ orEmpty (optList rec mrec_tags))
           in matchTokens hay tagPool toks)"

subsection \<open>buildDocsFromData\<close>

definition topicOf :: "string \<Rightarrow> Topic" where
  "topicOf mt =
     (if includesStr mt ''protest'' then protest
      else if includesStr mt ''flyer'' then flyer
      else if includesStr mt ''surveillance'' then surveillance
      else if includesStr mt ''policy'' then policy
      else if includesStr mt ''media'' \<or> includesStr mt ''newspaper'' \<or> includesStr mt ''press'' then media
      else other)"

text \<open>The body of the \<^verbatim>\<open>cloud.map\<close> callback.\<close>

definition buildDocFromData :: "mbyId \<Rightarrow> MCloudItem \<Rightarrow> MDoc" where
  "buildDocFromData byId it =
     (let rec = byId (String_id (mit_id it));
          url = firstTruthy [mit_documentDirect it, optField rec mrec_url, mit_link it];
          topicTitle = (case optList rec mrec_topics of
                          None \<Rightarrow> None
                        | Some ts \<Rightarrow> (case ts of [] \<Rightarrow> None | t # _ \<Rightarrow> Some t));
          mt = toLowerCase (orStr (mit_mediaType it) (orStr (optField rec mrec_mediaType) []));
          topic = topicOf mt;
          recTags = optList rec mrec_tags
      in \<lparr> m_id = mit_id it,
           m_title = orStr (Some (mit_title it)) (orStr (optField rec mrec_title) ''Untitled''),
           m_year = jsYear (nullish (mit_year it) (case rec of None \<Rightarrow> None | Some r \<Rightarrow> mrec_year r)),
           m_url = url,
           m_topic = topic,
           m_tags = Some (orEmpty (if recTags \<noteq> None \<and> length (orEmpty recTags) \<noteq> 0
                                   then recTags else mit_tags it)),
           m_repo = nullish (optField rec mrec_repository) (mit_repository it),
           m_iconURL = mit_previewLocal it,
           m_schoolPrimary = nullish (optField rec mrec_schoolPrimary) (mit_schoolPrimary it),
           m_description = nullish (optField rec mrec_description) (mit_description it),
           m_topicTitle = topicTitle \<rparr>)"

definition buildDocsFromData :: "MCloudItem list \<Rightarrow> mbyId \<Rightarrow> MDoc list" where
  "buildDocsFromData cloud byId = map (buildDocFromData byId) cloud"

section \<open>Notions of the specification and concrete inputs\<close>

text \<open>
  The definitions of this section are not translations of code: they restate, in the
  words of the specification, what the code is compared with, and name the concrete
  inputs at which properties are evaluated.
\<close>

text \<open>The first non-empty string of a list of candidates.\<close>

definition firstNonEmpty :: "string list \<Rightarrow> string" where
  "firstNonEmpty xs = (case filter (\<lambda>s. s \<noteq> []) xs of [] \<Rightarrow> [] | x # _ \<Rightarrow> x)"

text \<open>The title of the source-B record of an item; empty when there is none.\<close>

definition sourceBTitle :: "byId \<Rightarrow> CloudItem \<Rightarrow> string" where
  "sourceBTitle byId it = orStr (optField (byId (String_id (it_id it))) rec_title) []"

definition msourceBTitle :: "mbyId \<Rightarrow> MCloudItem \<Rightarrow> string" where
  "msourceBTitle byId it = orStr (optField (byId (String_id (mit_id it))) mrec_title) []"

text \<open>A candidate source supplies at least one raw entry.\<close>

definition contributes :: "jsval \<Rightarrow> bool" where
  "contributes v = (case v of JArr vs \<Rightarrow> stringsOf vs \<noteq> [] | JStr s \<Rightarrow> s \<noteq> [] | _ \<Rightarrow> False)"

text \<open>
  The additive score of the specification: 5 for the title, 2 for the description, 1 for
  each tag that contains the lower-cased query.
\<close>

definition specScore :: "Doc \<Rightarrow> string \<Rightarrow> int" where
  "specScore d query =
     (let ql = toLowerCase query
      in (if includesStr (toLowerCase (title d)) ql then 5 else 0)
         + (if includesStr (toLowerCase (orStr (description d) [])) ql then 2 else 0)
         + int (length (filter (\<lambda>t. includesStr (toLowerCase t) ql) (tags d))))"




text \<open>A comparator for the \<^verbatim>\<open>localeCompare\<close> parameter: the order of the code units.\<close>

definition codeUnitCompare :: "string \<Rightarrow> string \<Rightarrow> int" where
  "codeUnitCompare a b = (if a < b then - 1 else if a = b then 0 else 1)"

text \<open>Concrete documents, items, records and states.\<close>

definition exampleDoc :: "string \<Rightarrow> string option \<Rightarrow> string list \<Rightarrow> int option \<Rightarrow> Doc" where
  "exampleDoc t desc tgs y =
     \<lparr> doc_id = IdNum 1, title = t, rawTitle = t, year = y, url = None, tags = tgs,
       repo = None, iconURL = ''a.jpg'', description = desc \<rparr>"

definition exampleItem :: "int \<Rightarrow> string \<Rightarrow> jsval \<Rightarrow> CloudItem" where
  "exampleItem i t tgs =
     \<lparr> it_id = IdNum i, it_title = t, it_year = JNull, it_repository = None,
       it_description = None, it_tags = tgs, it_link = None, it_previewLocal = ''a.jpg'',
       it_documentDirect = None \<rparr>"

definition noRecords :: byId where
  "noRecords k = None"

definition exampleMItem :: "int \<Rightarrow> string \<Rightarrow> string list \<Rightarrow> MCloudItem" where
  "exampleMItem i t tgs =
     \<lparr> mit_id = IdNum i, mit_title = t, mit_year = None, mit_repository = None,
       mit_mediaType = None, mit_description = None, mit_schoolPrimary = None,
       mit_tags = Some tgs, mit_link = None, mit_previewLocal = ''a.jpg'',
       mit_documentDirect = None \<rparr>"

definition exampleMRecord :: "string \<Rightarrow> string list \<Rightarrow> MFullRecord" where
  "exampleMRecord t tgs =
     \<lparr> mrec_title = Some t, mrec_year = None, mrec_repository = None, mrec_mediaType = None,
       mrec_description = None, mrec_schoolPrimary = None, mrec_tags = Some tgs,
       mrec_url = None, mrec_hires = None, mrec_topics = None \<rparr>"

definition noMRecords :: mbyId where
  "noMRecords k = None"

definition oneMRecord :: "string \<Rightarrow> MFullRecord \<Rightarrow> mbyId" where
  "oneMRecord key r k = (if k = key then Some r else None)"


definition exampleMDoc :: "string \<Rightarrow> string list \<Rightarrow> MDoc" where
  "exampleMDoc t tgs =
     \<lparr> m_id = IdNum 1, m_title = t, m_year = JNull, m_url = None, m_topic = other,
       m_tags = Some tgs, m_repo = None, m_iconURL = ''a.jpg'', m_schoolPrimary = None,
       m_description = None, m_topicTitle = None \<rparr>"

definition exampleState :: FilterState where
  "exampleState =
     \<lparr> st_q = ''strike'', st_activeTags = [''a'', ''b''], st_activeEra = Some ''thick'',
       st_sort = ''year-desc'' \<rparr>"

section \<open>Properties\<close>

text \<open>
  C8. Filename cleanup of \<^verbatim>\<open>2021_NYU_flyer_Student-Coalition-Meeting.pdf\<close> gives
  \<^verbatim>\<open>Student Coalition Meeting\<close>: the extension is stripped, the first three
  underscore-delimited segments are dropped, and the hyphens become single spaces.
\<close>

theorem C8_cleanFileDisplay_example:
  "cleanFileDisplay ''2021_NYU_flyer_Student-Coalition-Meeting.pdf'' = ''Student Coalition Meeting''"
  by code_simp

subsection \<open>Strings\<close>

lemma dropWhile_all_iff: "(\<forall>x\<in>set (dropWhile P xs). P x) \<longleftrightarrow> (\<forall>x\<in>set xs. P x)"
  by (induction xs) auto

lemma trim_empty_iff: "trim s = [] \<longleftrightarrow> list_all isSpace s"
  by (simp add: trim_def dropWhile_eq_Nil_conv dropWhile_all_iff list_all_iff)

lemma split_on_nonempty: "split_on P s \<noteq> []"
  by (induction s) (auto split: list.splits)

















subsection \<open>Sets in insertion order\<close>

lemma set_foldl_setAdd: "set (foldl setAdd s ts) = set s \<union> set ts"
  by (induction ts arbitrary: s) (auto simp: setAdd_def)

lemma distinct_foldl_setAdd: "distinct s \<Longrightarrow> distinct (foldl setAdd s ts)"
  by (induction ts arbitrary: s) (auto simp: setAdd_def)

subsection \<open>Era match\<close>

text \<open>
  C6. With an active era, a document of year 1959 matches \<^verbatim>\<open>precursors\<close> but not
  \<^verbatim>\<open>thick\<close>; year 1960 matches \<^verbatim>\<open>thick\<close> but not \<^verbatim>\<open>precursors\<close>; year 2100 matches
  \<^verbatim>\<open>today\<close>; year 2101 matches none of the three eras; a document without a year
  matches none of the three eras.
\<close>

theorem C6_era_boundaries:
  "matchesEra (Some ''precursors'') (d\<lparr>year := Some 1959\<rparr>) = Inr True
   \<and> matchesEra (Some ''thick'') (d\<lparr>year := Some 1959\<rparr>) = Inr False
   \<and> matchesEra (Some ''thick'') (d\<lparr>year := Some 1960\<rparr>) = Inr True
   \<and> matchesEra (Some ''precursors'') (d\<lparr>year := Some 1960\<rparr>) = Inr False
   \<and> matchesEra (Some ''today'') (d\<lparr>year := Some 2100\<rparr>) = Inr True
   \<and> matchesEra (Some ''precursors'') (d\<lparr>year := Some 2101\<rparr>) = Inr False
   \<and> matchesEra (Some ''thick'') (d\<lparr>year := Some 2101\<rparr>) = Inr False
   \<and> matchesEra (Some ''today'') (d\<lparr>year := Some 2101\<rparr>) = Inr False
   \<and> matchesEra (Some ''precursors'') (d\<lparr>year := None\<rparr>) = Inr False
   \<and> matchesEra (Some ''thick'') (d\<lparr>year := None\<rparr>) = Inr False
   \<and> matchesEra (Some ''today'') (d\<lparr>year := None\<rparr>) = Inr False"
  by (simp add: matchesEra_def truthyStr_def orStr_def PERIODS_def jsYear_def)

subsection \<open>Sorting by year\<close>

text \<open>
  C2, as the code has it. Under \<^verbatim>\<open>year-asc\<close> a missing year counts as the year 1: for
  a document of year \<open>y\<close> and a document without a year the comparator returns \<open>y - 1\<close>,
  and \<open>1 - y\<close> with the arguments swapped. The document without a year is therefore
  ordered before every document whose year is greater than 1.
\<close>

theorem C2_year_asc_null_is_one:
  "year a = Some y \<Longrightarrow> year b = None \<Longrightarrow>
   compareDocs lc ''year-asc'' q a b = y - 1 \<and> compareDocs lc ''year-asc'' q b a = 1 - y"
  by (simp add: compareDocs_def yearOr_def jsYear_def)

theorem C2_year_asc_null_is_one_witness:
  "compareDocs codeUnitCompare ''year-asc'' []
     (exampleDoc ''Leaflet'' None [] (Some 1975)) (exampleDoc ''Minutes'' None [] None) = 1974
   \<and> compareDocs codeUnitCompare ''year-asc'' []
     (exampleDoc ''Minutes'' None [] None) (exampleDoc ''Leaflet'' None [] (Some 1975)) = - 1974"
  using C2_year_asc_null_is_one
    [of "exampleDoc ''Leaflet'' None [] (Some 1975)" 1975 "exampleDoc ''Minutes'' None [] None"
        codeUnitCompare "[]"]
  by (simp add: exampleDoc_def)

text \<open>
  The claim as written fails: a document of year 1968 is placed after a document without
  a year.
\<close>

theorem C2_null_year_sorts_first:
  "compareDocs codeUnitCompare ''year-asc'' []
     (exampleDoc ''Flyer'' None [] (Some 1968)) (exampleDoc ''Poster'' None [] None) > 0
   \<and> sortBy (compareDocs codeUnitCompare ''year-asc'' [])
       [exampleDoc ''Flyer'' None [] (Some 1968), exampleDoc ''Poster'' None [] None]
     = [exampleDoc ''Poster'' None [] None, exampleDoc ''Flyer'' None [] (Some 1968)]"
  by (simp add: compareDocs_def yearOr_def jsYear_def exampleDoc_def sortBy_def)

subsection \<open>Tag coercion\<close>

lemma pushAny_append: "pushAny out v = out @ pushAny [] v"
  by (cases v) (simp_all add: pushAny_def)

lemma pushAny_empty_iff: "pushAny [] v = [] \<longleftrightarrow> \<not> contributes v"
  by (cases v) (simp_all add: pushAny_def contributes_def split_on_nonempty)

text \<open>
  C4, as the code has it. The tags are drawn from the primary and then the secondary
  source; the topics are used exactly when primary and secondary together supply no raw
  entry, which is decided before trimming and filtering.
\<close>

theorem C4_coerceTags_fallback:
  "coerceTags recTags itemTags topics =
     (if contributes recTags \<or> contributes itemTags
      then cleanTags (pushAny [] recTags @ pushAny [] itemTags)
      else cleanTags (pushAny [] topics))"
proof -
  have out: "pushAny (pushAny [] recTags) itemTags = pushAny [] recTags @ pushAny [] itemTags"
    by (rule pushAny_append)
  show ?thesis
  proof (cases "contributes recTags \<or> contributes itemTags")
    case True
    have nonempty: "pushAny (pushAny [] recTags) itemTags \<noteq> []"
      unfolding out using True by (auto simp: pushAny_empty_iff)
    have "coerceTags recTags itemTags topics = cleanTags (pushAny (pushAny [] recTags) itemTags)"
      using nonempty by (simp add: coerceTags_def Let_def)
    then show ?thesis
      unfolding out using True by simp
  next
    case False
    have empty: "pushAny (pushAny [] recTags) itemTags = []"
      unfolding out using False by (simp add: pushAny_empty_iff)
    have "coerceTags recTags itemTags topics = cleanTags (pushAny [] topics)"
      by (simp add: coerceTags_def Let_def empty)
    with False show ?thesis
      by simp
  qed
qed

text \<open>
  The claim as written fails: a whitespace-only primary entry is a raw entry, so the
  topics are not used and the result is empty.
\<close>

theorem C4_whitespace_blocks_fallback:
  "coerceTags (JArr [JStr ''  '']) JUndefined (JArr [JStr ''labor'']) = []
   \<and> coerceTags JUndefined JUndefined (JArr [JStr ''labor'']) = [''labor'']"
  by code_simp

subsection \<open>Relevance\<close>

lemma foldl_count:
  "foldl (\<lambda>score t. if P t then score + 1 else score) (s::int) ts = s + int (length (filter P ts))"
  by (induction ts arbitrary: s) auto

text \<open>
  C7, as the code has it. For every document and every query that is not empty or
  whitespace-only the score is additive and uncapped: 5 if the lower-cased query is a
  substring of the title, plus 2 for the description, plus 1 for each tag that
  contains it. The query \<^verbatim>\<open>strike\<close> against the title \<^verbatim>\<open>Strike Committee\<close>, a description
  that contains \<^verbatim>\<open>strike\<close> and the tags \<^verbatim>\<open>strike\<close>, \<^verbatim>\<open>labor\<close> scores 8. An empty or
  whitespace-only query scores 0.
\<close>

theorem C7_scoreRelevance:
  "scoreRelevance d query = (if list_all isSpace query then 0 else specScore d query)
   \<and> (includesStr (toLowerCase desc) ''strike'' \<longrightarrow>
        scoreRelevance
          (d\<lparr>title := ''Strike Committee'', description := Some desc, tags := [''strike'', ''labor'']\<rparr>)
          ''strike'' = 8)
   \<and> scoreRelevance d [] = 0"
proof -
  have general: "scoreRelevance e qq = (if list_all isSpace qq then 0 else specScore e qq)" for e qq
    using trim_empty_iff [of qq]
    by (simp add: scoreRelevance_def specScore_def Let_def foldl_count)
  have lower: "toLowerCase ''Strike Committee'' = ''strike committee''"
    "toLowerCase ''strike'' = ''strike''" "toLowerCase ''labor'' = ''labor''"
    by (simp_all add: toLowerCase_def toLowerChar_def isUpper_def)
  have "scoreRelevance
          (d\<lparr>title := ''Strike Committee'', description := Some desc, tags := [''strike'', ''labor'']\<rparr>)
          ''strike'' = 8"
    if "includesStr (toLowerCase desc) ''strike''"
    using that by (simp add: general isSpace_def specScore_def Let_def lower orStr_def)
  then show ?thesis
    by (simp add: general)
qed

theorem C7_scoreRelevance_witness:
  "scoreRelevance (exampleDoc ''Strike Committee'' (Some ''Minutes of the Strike vote'')
      [''strike'', ''labor''] (Some 1970)) ''strike'' = 8"
proof -
  have "includesStr (toLowerCase ''Minutes of the Strike vote'') ''strike''"
    by code_simp
  with C7_scoreRelevance
    [of "exampleDoc ''Strike Committee'' (Some ''Minutes of the Strike vote'') [''strike'', ''labor''] (Some 1970)"
        "''strike''" "''Minutes of the Strike vote''"]
  show ?thesis
    by (simp add: exampleDoc_def)
qed

text \<open>
  The claim as written fails for a query that is not empty but consists of white space:
  the title contains the query, yet the score is 0 and not 5.
\<close>

theorem C7_blank_query_scores_zero:
  "'' '' \<noteq> []
   \<and> scoreRelevance (exampleDoc ''Strike Committee'' None [] None) '' '' = 0
   \<and> specScore (exampleDoc ''Strike Committee'' None [] None) '' '' = 5"
  by code_simp

subsection \<open>Query state codec\<close>

lemma syncParams_example:
  "fst (syncParams exampleState list) = ''?q=strike&tags=a%2Cb&era=thick&sort=year-desc''"
  by (simp add: syncParams_def exampleState_def Let_def truthyStr_def orStr_def
      paramsToString_def urlencode_def urlencodeChar_def isAlnum_def utf8Encode_def
      percentEncodeByte_def digitChar_def)

lemma parseParams_example:
  "parseParams ''?q=strike&tags=a%2Cb&era=thick&sort=year-desc''
     = [(''q'', ''strike''), (''tags'', ''a,b''), (''era'', ''thick''), (''sort'', ''year-desc'')]"
  by code_simp

lemma readParams_example:
  "readParams st0 ''?q=strike&tags=a%2Cb&era=thick&sort=year-desc''
     = st0\<lparr>st_q := ''strike'', st_activeTags := foldl setAdd (st_activeTags st0) [''a'', ''b''],
           st_sort := ''year-desc'', st_activeEra := Some ''thick''\<rparr>"
  by (simp add: readParams_def parseParams_example Let_def paramsGet_def truthyStr_def orStr_def
      sortModes_def PERIODS_truthy_def PERIODS_def)

text \<open>
  C9. The state with query \<^verbatim>\<open>strike\<close>, tags \<^verbatim>\<open>a\<close> and \<^verbatim>\<open>b\<close>, era \<^verbatim>\<open>thick\<close> and sort mode
  \<^verbatim>\<open>year-desc\<close> is written as \<^verbatim>\<open>?q=strike&tags=a%2Cb&era=thick&sort=year-desc\<close>. Reading
  that string restores the query, the era and the sort mode whatever the state before,
  and adds the two tags to the active tags; read into the state of a fresh page it gives
  the encoded state back.
\<close>

theorem C9_codec_roundtrip:
  "fst (syncParams exampleState list) = ''?q=strike&tags=a%2Cb&era=thick&sort=year-desc''
   \<and> st_q (readParams st0 (fst (syncParams exampleState list))) = st_q exampleState
   \<and> set (st_activeTags (readParams st0 (fst (syncParams exampleState list))))
       = set (st_activeTags st0) \<union> set (st_activeTags exampleState)
   \<and> st_activeEra (readParams st0 (fst (syncParams exampleState list))) = st_activeEra exampleState
   \<and> st_sort (readParams st0 (fst (syncParams exampleState list))) = st_sort exampleState
   \<and> readParams initState (fst (syncParams exampleState list)) = exampleState"
  by (simp add: syncParams_example readParams_example set_foldl_setAdd)
     (auto simp add: exampleState_def initState_def setAdd_def)

subsection \<open>Title resolution\<close>

text \<open>
  C1, as the code has it. On the search page the underlying title (\<^verbatim>\<open>rawTitle\<close>) of
  the document built for a source-A item is the first non-empty of the source-B title,
  the source-A title and \<^verbatim>\<open>Untitled\<close>, and the displayed title is its filename cleanup
  exactly when it contains an underscore. On the cloud page the builder stores the first
  non-empty of the source-A title, the source-B title and \<^verbatim>\<open>Untitled\<close>, without cleanup.
\<close>

theorem C1_title_resolution:
  "map rawTitle (buildDocs cloud byId)
     = map (\<lambda>it. firstNonEmpty [sourceBTitle byId it, it_title it, ''Untitled'']) cloud
   \<and> map title (buildDocs cloud byId)
     = map (\<lambda>d. if CHR ''_'' \<in> set (rawTitle d) then cleanFileDisplay (rawTitle d) else rawTitle d)
         (buildDocs cloud byId)
   \<and> map m_title (buildDocsFromData mcloud mbyId)
     = map (\<lambda>it. firstNonEmpty [mit_title it, msourceBTitle mbyId it, ''Untitled'']) mcloud"
  by (auto simp: buildDocs_def buildDoc_def buildDocsFromData_def buildDocFromData_def Let_def
      firstNonEmpty_def sourceBTitle_def msourceBTitle_def orStr_def optField_def
      hasUnderscore_def split: option.splits)

text \<open>
  The claim as written fails on the cloud page: with both titles present the builder
  keeps the source-A title, and a title with underscores is stored as it is.
\<close>

theorem C1_cloud_builder_prefers_source_A:
  "map m_title (buildDocsFromData [exampleMItem 1 ''Alpha'' []]
      (oneMRecord ''1'' (exampleMRecord ''Beta'' []))) = [''Alpha'']
   \<and> firstNonEmpty [msourceBTitle (oneMRecord ''1'' (exampleMRecord ''Beta'' []))
        (exampleMItem 1 ''Alpha'' []), mit_title (exampleMItem 1 ''Alpha'' []), ''Untitled'']
     = ''Beta''
   \<and> map m_title (buildDocsFromData [exampleMItem 2 ''a_b_c_Flyer.jpg'' []] noMRecords)
     = [''a_b_c_Flyer.jpg'']
   \<and> cleanFileDisplay ''a_b_c_Flyer.jpg'' = ''Flyer''"
  by code_simp

subsection \<open>Tag index\<close>

lemma set_insertBy: "set (insertBy cmp x ys) = insert x (set ys)"
  by (induction ys) auto

lemma distinct_insertBy: "distinct (insertBy cmp x ys) \<longleftrightarrow> x \<notin> set ys \<and> distinct ys"
  by (induction ys) (auto simp: set_insertBy)

lemma set_sortBy: "set (sortBy cmp xs) = set xs"
  by (induction xs) (simp_all add: sortBy_def set_insertBy)

lemma distinct_sortBy: "distinct (sortBy cmp xs) \<longleftrightarrow> distinct xs"
  by (induction xs)
    (simp_all add: sortBy_def distinct_insertBy set_sortBy [unfolded sortBy_def])

lemma sorted_insertBy:
  assumes total: "\<And>a b. cmp a b \<le> 0 \<or> cmp b a \<le> 0"
    and trans: "\<And>a b c. cmp a b \<le> 0 \<Longrightarrow> cmp b c \<le> 0 \<Longrightarrow> cmp a c \<le> 0"
  shows "sorted_wrt (\<lambda>a b. cmp a b \<le> 0) ys
    \<Longrightarrow> sorted_wrt (\<lambda>a b. cmp a b \<le> 0) (insertBy cmp x ys)"
proof (induction ys)
  case Nil
  then show ?case by simp
next
  case (Cons y ys)
  show ?case
  proof (cases "cmp x y \<le> 0")
    case True
    with Cons.prems show ?thesis
      by (auto intro: trans)
  next
    case False
    with total [of x y] have "cmp y x \<le> 0" by simp
    with False Cons show ?thesis
      by (auto simp: set_insertBy)
  qed
qed

lemma sorted_sortBy:
  assumes total: "\<And>a b. cmp a b \<le> 0 \<or> cmp b a \<le> 0"
    and trans: "\<And>a b c. cmp a b \<le> 0 \<Longrightarrow> cmp b c \<le> 0 \<Longrightarrow> cmp a c \<le> 0"
  shows "sorted_wrt (\<lambda>a b. cmp a b \<le> 0) (sortBy cmp xs)"
  by (induction xs) (simp_all add: sortBy_def sorted_insertBy [OF total trans])

lemma set_collect_tags:
  "set (foldl (\<lambda>s d. foldl setAdd s (tags d)) s docs) = set s \<union> (\<Union>d\<in>set docs. set (tags d))"
  by (induction docs arbitrary: s) (auto simp: set_foldl_setAdd)

lemma distinct_collect_tags:
  "distinct s \<Longrightarrow> distinct (foldl (\<lambda>s d. foldl setAdd s (tags d)) s docs)"
  by (induction docs arbitrary: s) (auto simp: distinct_foldl_setAdd)

lemma codeUnitCompare_total: "codeUnitCompare a b \<le> 0 \<or> codeUnitCompare b a \<le> 0"
  by (auto simp: codeUnitCompare_def)

lemma codeUnitCompare_trans:
  "codeUnitCompare a b \<le> 0 \<Longrightarrow> codeUnitCompare b c \<le> 0 \<Longrightarrow> codeUnitCompare a c \<le> 0"
  by (auto simp: codeUnitCompare_def split: if_splits)

text \<open>
  C3, as the code has it. The vocabulary holds every tag string of the documents exactly
  once, where two strings are the same entry only if they are equal character for
  character, and it is sorted by the locale-aware comparison, provided that comparison
  is a total preorder.
\<close>

theorem C3_buildTagSet:
  assumes total: "\<And>a b. lc a b \<le> 0 \<or> lc b a \<le> 0"
    and trans: "\<And>a b c. lc a b \<le> 0 \<Longrightarrow> lc b c \<le> 0 \<Longrightarrow> lc a c \<le> 0"
  shows "distinct (buildTagSet lc docs)
    \<and> set (buildTagSet lc docs) = (\<Union>d\<in>set docs. set (tags d))
    \<and> sorted_wrt (\<lambda>a b. lc a b \<le> 0) (buildTagSet lc docs)"
  by (simp add: buildTagSet_def distinct_sortBy set_sortBy distinct_collect_tags
      set_collect_tags sorted_sortBy [OF total trans])

theorem C3_buildTagSet_witness:
  "distinct (buildTagSet codeUnitCompare
      [exampleDoc ''A'' None [''labor'', ''Housing''] None,
       exampleDoc ''B'' None [''housing'', ''labor''] None])
   \<and> set (buildTagSet codeUnitCompare
      [exampleDoc ''A'' None [''labor'', ''Housing''] None,
       exampleDoc ''B'' None [''housing'', ''labor''] None]) = {''labor'', ''Housing'', ''housing''}
   \<and> sorted_wrt (\<lambda>a b. codeUnitCompare a b \<le> 0) (buildTagSet codeUnitCompare
      [exampleDoc ''A'' None [''labor'', ''Housing''] None,
       exampleDoc ''B'' None [''housing'', ''labor''] None])"
  using C3_buildTagSet
    [of codeUnitCompare
        "[exampleDoc ''A'' None [''labor'', ''Housing''] None,
          exampleDoc ''B'' None [''housing'', ''labor''] None]",
     OF codeUnitCompare_total codeUnitCompare_trans]
  by (auto simp add: exampleDoc_def)

text \<open>
  The claim as written fails: two documents that carry \<^verbatim>\<open>Foo\<close> and \<^verbatim>\<open>foo\<close> give a
  vocabulary with both entries, which are the same tag up to case.
\<close>

theorem C3_case_variants_both_kept:
  "buildTagSet codeUnitCompare
     (buildDocs [exampleItem 1 ''Sit-in'' (JStr ''Foo''), exampleItem 2 ''Teach-in'' (JStr ''foo'')]
        noRecords)
   = [''Foo'', ''foo'']
   \<and> toLowerCase ''Foo'' = toLowerCase ''foo''"
  by code_simp

subsection \<open>Text match\<close>






subsection \<open>Source-B tags on the cloud page\<close>

lemma built_doc_tags:
  "set (orEmpty (optList (byId (String_id (m_id (buildDocFromData byId it)))) mrec_tags))
     \<subseteq> set (orEmpty (m_tags (buildDocFromData byId it)))"
  by (auto simp: buildDocFromData_def Let_def orEmpty_def optList_def split: option.splits)

text \<open>
  C10, as the code has it. The query predicate of the cloud page reads the tags of the
  source-B record in addition to the tags of the document: a document value without
  tags matches \<^verbatim>\<open>labor\<close> and \<^verbatim>\<open>tag:labor\<close> through the record's tag \<^verbatim>\<open>Labor\<close>, and does
  not match without the record. For a document built by \<^verbatim>\<open>buildDocsFromData\<close> from the
  same records, every tag of its source-B record is among its own tags, so no built
  document matches through a source-B tag that its own tag list lacks.
\<close>

theorem C10_record_tags_consulted:
  "(d \<in> set (buildDocsFromData cloud byId) \<longrightarrow>
      set (orEmpty (optList (byId (String_id (m_id d))) mrec_tags)) \<subseteq> set (orEmpty (m_tags d)))
   \<and> matchesQuery (oneMRecord ''1'' (exampleMRecord ''Rally'' [''Labor'']))
       (exampleMDoc ''Rally'' []) ''labor''
   \<and> matchesQuery (oneMRecord ''1'' (exampleMRecord ''Rally'' [''Labor'']))
       (exampleMDoc ''Rally'' []) ''tag:labor''
   \<and> \<not> matchesQuery noMRecords (exampleMDoc ''Rally'' []) ''labor''
   \<and> \<not> matchesQuery noMRecords (exampleMDoc ''Rally'' []) ''tag:labor''"
proof -
  have "set (orEmpty (optList (byId (String_id (m_id d))) mrec_tags)) \<subseteq> set (orEmpty (m_tags d))"
    if "d \<in> set (buildDocsFromData cloud byId)"
    using that built_doc_tags [of byId] by (auto simp: buildDocsFromData_def)
  moreover have "matchesQuery (oneMRecord ''1'' (exampleMRecord ''Rally'' [''Labor'']))
      (exampleMDoc ''Rally'' []) ''labor''"
    by code_simp
  moreover have "matchesQuery (oneMRecord ''1'' (exampleMRecord ''Rally'' [''Labor'']))
      (exampleMDoc ''Rally'' []) ''tag:labor''"
    by code_simp
  moreover have "\<not> matchesQuery noMRecords (exampleMDoc ''Rally'' []) ''labor''"
    by code_simp
  moreover have "\<not> matchesQuery noMRecords (exampleMDoc ''Rally'' []) ''tag:labor''"
    by code_simp
  ultimately show ?thesis by blast
qed

theorem C10_record_tags_consulted_witness:
  "set (orEmpty (optList (oneMRecord ''7'' (exampleMRecord ''March'' [''Housing'', ''rent''])
          (String_id (m_id (buildDocFromData
             (oneMRecord ''7'' (exampleMRecord ''March'' [''Housing'', ''rent'']))
             (exampleMItem 7 ''March'' [''tenants''])))))
        mrec_tags))
   \<subseteq> set (orEmpty (m_tags (buildDocFromData
             (oneMRecord ''7'' (exampleMRecord ''March'' [''Housing'', ''rent'']))
             (exampleMItem 7 ''March'' [''tenants'']))))"
proof -
  have "buildDocFromData (oneMRecord ''7'' (exampleMRecord ''March'' [''Housing'', ''rent'']))
          (exampleMItem 7 ''March'' [''tenants''])
      \<in> set (buildDocsFromData [exampleMItem 7 ''March'' [''tenants'']]
               (oneMRecord ''7'' (exampleMRecord ''March'' [''Housing'', ''rent''])))"
    by (simp add: buildDocsFromData_def)
  with C10_record_tags_consulted
    [of "buildDocFromData (oneMRecord ''7'' (exampleMRecord ''March'' [''Housing'', ''rent'']))
           (exampleMItem 7 ''March'' [''tenants''])"
        "[exampleMItem 7 ''March'' [''tenants'']]"
        "oneMRecord ''7'' (exampleMRecord ''March'' [''Housing'', ''rent''])"]
  show ?thesis by blast
qed

text \<open>
  The claim as written fails: there is no built document whose source-B record has a
  tag that the document's own tag list lacks.
\<close>

theorem C10_no_excluded_record_tag:
  "\<not> (\<exists>cloud byId d t. d \<in> set (buildDocsFromData cloud byId)
        \<and> t \<in> set (orEmpty (optList (byId (String_id (m_id d))) mrec_tags))
        \<and> t \<notin> set (orEmpty (m_tags d)))"
  using built_doc_tags by (fastforce simp: buildDocsFromData_def)


end
